theory Spec2Isabelle
  imports Complex_Main
begin

section \<open>Strings\<close>

text \<open>
  A JavaScript string is held as a \<^typ>\<open>string\<close> carrying its UTF-8 encoding, one
  \<^typ>\<open>char\<close> per byte, exactly the bytes of the literals in \<^verbatim>\<open>App.jsx\<close>. A string is
  truthy when it is not empty. Language tags and country codes are ASCII; the case
  conversions below map the 26 ASCII letters and leave every other byte as it is.
\<close>

definition upperLetters :: string where
  "upperLetters = ''ABCDEFGHIJKLMNOPQRSTUVWXYZ''"

definition lowerLetters :: string where
  "lowerLetters = ''abcdefghijklmnopqrstuvwxyz''"

definition toLowerCaseChar :: "char \<Rightarrow> char" where
  "toLowerCaseChar c =
     (case map_of (zip upperLetters lowerLetters) c of Some l \<Rightarrow> l | None \<Rightarrow> c)"

definition toUpperCaseChar :: "char \<Rightarrow> char" where
  "toUpperCaseChar c =
     (case map_of (zip lowerLetters upperLetters) c of Some u \<Rightarrow> u | None \<Rightarrow> c)"

definition toLowerCase :: "string \<Rightarrow> string" where
  "toLowerCase s = map toLowerCaseChar s"

definition toUpperCase :: "string \<Rightarrow> string" where
  "toUpperCase s = map toUpperCaseChar s"

text \<open>\<^verbatim>\<open>s.startsWith(p)\<close>\<close>

fun startsWith :: "string \<Rightarrow> string \<Rightarrow> bool" where
  "startsWith s [] = True"
| "startsWith [] (p # ps) = False"
| "startsWith (c # cs) (p # ps) = (c = p \<and> startsWith cs ps)"

section \<open>Language catalog\<close>

text \<open>
  The two object literals \<^verbatim>\<open>EMERGENCY_PHRASE\<close> and \<^verbatim>\<open>COUNTRY_LANGS\<close>, as association
  lists in the order of the source. Property access \<^verbatim>\<open>T[k]\<close> is \<open>map_of T k\<close>, with
  \<open>None\<close> for \<^verbatim>\<open>undefined\<close>. The keys that reach \<^verbatim>\<open>COUNTRY_LANGS\<close> are results of
  \<^verbatim>\<open>toUpperCase\<close>, and the keys that reach \<^verbatim>\<open>EMERGENCY_PHRASE\<close> are entries of
  \<^verbatim>\<open>COUNTRY_LANGS\<close> or of the default list.
\<close>

definition PHRASE_en :: string where
  "PHRASE_en =
     ''THIS IS A TEST EMERGENCY''"

definition PHRASE_es :: string where
  "PHRASE_es =
     ''ESTA ES UNA EMERGENCIA DE PRUEBA''"

definition PHRASE_zh :: string where
  "PHRASE_zh =
     [CHR 0xE8, CHR 0xBF, CHR 0x99, CHR 0xE6, CHR 0x98, CHR 0xAF, CHR 0xE4, CHR 0xB8, CHR 0x80,
     CHR 0xE6, CHR 0x9D, CHR 0xA1, CHR 0xE6, CHR 0xB5, CHR 0x8B, CHR 0xE8, CHR 0xAF, CHR 0x95,
     CHR 0xE7, CHR 0xB4, CHR 0xA7, CHR 0xE6, CHR 0x80, CHR 0xA5, CHR 0xE9, CHR 0x80, CHR 0x9A,
     CHR 0xE7, CHR 0x9F, CHR 0xA5]"

definition PHRASE_hi :: string where
  "PHRASE_hi =
     [CHR 0xE0, CHR 0xA4, CHR 0xAF, CHR 0xE0, CHR 0xA4, CHR 0xB9] @ '' '' @ [CHR 0xE0, CHR 0xA4,
     CHR 0x8F, CHR 0xE0, CHR 0xA4, CHR 0x95] @ '' '' @ [CHR 0xE0, CHR 0xA4, CHR 0xAA, CHR 0xE0,
     CHR 0xA4, CHR 0xB0, CHR 0xE0, CHR 0xA5, CHR 0x80, CHR 0xE0, CHR 0xA4, CHR 0x95, CHR 0xE0,
     CHR 0xA5, CHR 0x8D, CHR 0xE0, CHR 0xA4, CHR 0xB7, CHR 0xE0, CHR 0xA4, CHR 0xA3] @ '' ''
     @ [CHR 0xE0, CHR 0xA4, CHR 0x86, CHR 0xE0, CHR 0xA4, CHR 0xAA, CHR 0xE0, CHR 0xA4,
     CHR 0xBE, CHR 0xE0, CHR 0xA4, CHR 0xA4, CHR 0xE0, CHR 0xA4, CHR 0x95, CHR 0xE0, CHR 0xA4,
     CHR 0xBE, CHR 0xE0, CHR 0xA4, CHR 0xB2] @ '' '' @ [CHR 0xE0, CHR 0xA4, CHR 0xB9, CHR 0xE0,
     CHR 0xA5, CHR 0x88]"

definition PHRASE_ar :: string where
  "PHRASE_ar =
     [CHR 0xD9, CHR 0x87, CHR 0xD8, CHR 0xB0, CHR 0xD9, CHR 0x87] @ '' '' @ [CHR 0xD8, CHR 0xAD,
     CHR 0xD8, CHR 0xA7, CHR 0xD9, CHR 0x84, CHR 0xD8, CHR 0xA9] @ '' '' @ [CHR 0xD8, CHR 0xB7,
     CHR 0xD9, CHR 0x88, CHR 0xD8, CHR 0xA7, CHR 0xD8, CHR 0xB1, CHR 0xD8, CHR 0xA6] @ '' ''
     @ [CHR 0xD8, CHR 0xAA, CHR 0xD8, CHR 0xAC, CHR 0xD8, CHR 0xB1, CHR 0xD9, CHR 0x8A,
     CHR 0xD8, CHR 0xA8, CHR 0xD9, CHR 0x8A, CHR 0xD8, CHR 0xA9]"

definition PHRASE_fr :: string where
  "PHRASE_fr =
     ''Ceci est une alerte d'' @ [CHR 0xE2, CHR 0x80, CHR 0x99] @ ''urgence de test''"

definition PHRASE_vi :: string where
  "PHRASE_vi =
     [CHR 0xC4, CHR 0x90, CHR 0xC3, CHR 0x82] @ ''Y L'' @ [CHR 0xC3, CHR 0x80] @ '' T''
     @ [CHR 0xC3, CHR 0x8C] @ ''NH HU'' @ [CHR 0xE1, CHR 0xBB, CHR 0x90] @ ''NG KH''
     @ [CHR 0xE1, CHR 0xBA, CHR 0xA8] @ ''N C'' @ [CHR 0xE1, CHR 0xBA, CHR 0xA4] @ ''P TH''
     @ [CHR 0xE1, CHR 0xBB, CHR 0xAC] @ '' NGHI'' @ [CHR 0xE1, CHR 0xBB, CHR 0x86] @ ''M''"

definition PHRASE_pt :: string where
  "PHRASE_pt =
     ''ISTO '' @ [CHR 0xC3, CHR 0x89] @ '' UMA EMERG'' @ [CHR 0xC3, CHR 0x8A]
     @ ''NCIA DE TESTE''"

definition PHRASE_ru :: string where
  "PHRASE_ru =
     [CHR 0xD0, CHR 0xAD, CHR 0xD0, CHR 0xA2, CHR 0xD0, CHR 0x9E] @ '' '' @ [CHR 0xD0, CHR 0xA2,
     CHR 0xD0, CHR 0x95, CHR 0xD0, CHR 0xA1, CHR 0xD0, CHR 0xA2, CHR 0xD0, CHR 0x9E, CHR 0xD0,
     CHR 0x92, CHR 0xD0, CHR 0x9E, CHR 0xD0, CHR 0x95] @ '' '' @ [CHR 0xD0, CHR 0xA7, CHR 0xD0,
     CHR 0xA0, CHR 0xD0, CHR 0x95, CHR 0xD0, CHR 0x97, CHR 0xD0, CHR 0x92, CHR 0xD0, CHR 0xAB,
     CHR 0xD0, CHR 0xA7, CHR 0xD0, CHR 0x90, CHR 0xD0, CHR 0x99, CHR 0xD0, CHR 0x9D, CHR 0xD0,
     CHR 0x9E, CHR 0xD0, CHR 0x95] @ '' '' @ [CHR 0xD0, CHR 0xA1, CHR 0xD0, CHR 0x9E, CHR 0xD0,
     CHR 0x9E, CHR 0xD0, CHR 0x91, CHR 0xD0, CHR 0xA9, CHR 0xD0, CHR 0x95, CHR 0xD0, CHR 0x9D,
     CHR 0xD0, CHR 0x98, CHR 0xD0, CHR 0x95]"

definition PHRASE_ja :: string where
  "PHRASE_ja =
     [CHR 0xE3, CHR 0x81, CHR 0x93, CHR 0xE3, CHR 0x82, CHR 0x8C, CHR 0xE3, CHR 0x81, CHR 0xAF,
     CHR 0xE3, CHR 0x83, CHR 0x86, CHR 0xE3, CHR 0x82, CHR 0xB9, CHR 0xE3, CHR 0x83, CHR 0x88,
     CHR 0xE7, CHR 0xB7, CHR 0x8A, CHR 0xE6, CHR 0x80, CHR 0xA5, CHR 0xE6, CHR 0x94, CHR 0xBE,
     CHR 0xE9, CHR 0x80, CHR 0x81, CHR 0xE3, CHR 0x81, CHR 0xA7, CHR 0xE3, CHR 0x81, CHR 0x99]"

definition PHRASE_ko :: string where
  "PHRASE_ko =
     [CHR 0xEC, CHR 0x9D, CHR 0xB4, CHR 0xEA, CHR 0xB2, CHR 0x83, CHR 0xEC, CHR 0x9D, CHR 0x80]
     @ '' '' @ [CHR 0xEC, CHR 0x8B, CHR 0x9C, CHR 0xED, CHR 0x97, CHR 0x98] @ '' '' @ [CHR 0xEB,
     CHR 0xB9, CHR 0x84, CHR 0xEC, CHR 0x83, CHR 0x81] @ '' '' @ [CHR 0xEC, CHR 0x95, CHR 0x88,
     CHR 0xEB, CHR 0x82, CHR 0xB4, CHR 0xEC, CHR 0x9E, CHR 0x85, CHR 0xEB, CHR 0x8B, CHR 0x88,
     CHR 0xEB, CHR 0x8B, CHR 0xA4]"

definition PHRASE_de :: string where
  "PHRASE_de =
     ''DIES IST EINE TEST-NOTFALLMELDUNG''"

definition PHRASE_tl :: string where
  "PHRASE_tl =
     ''ITO AY ISANG PAGSUSUBOK NA EMERHENSIYA''"

definition PHRASE_ur :: string where
  "PHRASE_ur =
     [CHR 0xDB, CHR 0x8C, CHR 0xDB, CHR 0x81] @ '' '' @ [CHR 0xD8, CHR 0xA7, CHR 0xDB, CHR 0x8C,
     CHR 0xDA, CHR 0xA9] @ '' '' @ [CHR 0xD8, CHR 0xA2, CHR 0xD8, CHR 0xB2, CHR 0xD9, CHR 0x85,
     CHR 0xD8, CHR 0xA7, CHR 0xD8, CHR 0xA6, CHR 0xD8, CHR 0xB4, CHR 0xDB, CHR 0x8C] @ '' ''
     @ [CHR 0xDB, CHR 0x81, CHR 0xD9, CHR 0x86, CHR 0xDA, CHR 0xAF, CHR 0xD8, CHR 0xA7,
     CHR 0xD9, CHR 0x85, CHR 0xDB, CHR 0x8C] @ '' '' @ [CHR 0xD8, CHR 0xB5, CHR 0xD9, CHR 0x88,
     CHR 0xD8, CHR 0xB1, CHR 0xD8, CHR 0xAA, CHR 0xD8, CHR 0xAD, CHR 0xD8, CHR 0xA7, CHR 0xD9,
     CHR 0x84] @ '' '' @ [CHR 0xDB, CHR 0x81, CHR 0xDB, CHR 0x92]"

definition PHRASE_fa :: string where
  "PHRASE_fa =
     [CHR 0xD8, CHR 0xA7, CHR 0xDB, CHR 0x8C, CHR 0xD9, CHR 0x86] @ '' '' @ [CHR 0xDB, CHR 0x8C,
     CHR 0xDA, CHR 0xA9] @ '' '' @ [CHR 0xD9, CHR 0x88, CHR 0xD8, CHR 0xB6, CHR 0xD8, CHR 0xB9,
     CHR 0xDB, CHR 0x8C, CHR 0xD8, CHR 0xAA] @ '' '' @ [CHR 0xD8, CHR 0xA7, CHR 0xD8, CHR 0xB6,
     CHR 0xD8, CHR 0xB7, CHR 0xD8, CHR 0xB1, CHR 0xD8, CHR 0xA7, CHR 0xD8, CHR 0xB1, CHR 0xDB,
     CHR 0x8C] @ '' '' @ [CHR 0xD8, CHR 0xA2, CHR 0xD8, CHR 0xB2, CHR 0xD9, CHR 0x85, CHR 0xD8,
     CHR 0xA7, CHR 0xDB, CHR 0x8C, CHR 0xD8, CHR 0xB4, CHR 0xDB, CHR 0x8C] @ '' '' @ [CHR 0xD8,
     CHR 0xA7, CHR 0xD8, CHR 0xB3, CHR 0xD8, CHR 0xAA]"

definition PHRASE_tr :: string where
  "PHRASE_tr =
     ''BU B'' @ [CHR 0xC4, CHR 0xB0] @ ''R DENEME AC'' @ [CHR 0xC4, CHR 0xB0] @ ''L DURUMU''"

definition PHRASE_it :: string where
  "PHRASE_it =
     ''QUESTO '' @ [CHR 0xC3, CHR 0x88] @ '' UN'' @ [CHR 0xE2, CHR 0x80, CHR 0x99]
     @ ''EMERGENZA DI PROVA''"

definition PHRASE_pl :: string where
  "PHRASE_pl =
     ''TO JEST TESTOWY ALARM''"

definition PHRASE_nl :: string where
  "PHRASE_nl =
     ''Dit is een test-noodmelding''"

definition PHRASE_pa :: string where
  "PHRASE_pa =
     [CHR 0xE0, CHR 0xA8, CHR 0x87, CHR 0xE0, CHR 0xA8, CHR 0xB9] @ '' '' @ [CHR 0xE0, CHR 0xA8,
     CHR 0x87, CHR 0xE0, CHR 0xA9, CHR 0xB1, CHR 0xE0, CHR 0xA8, CHR 0x95] @ '' '' @ [CHR 0xE0,
     CHR 0xA8, CHR 0x9F, CHR 0xE0, CHR 0xA9, CHR 0x88, CHR 0xE0, CHR 0xA8, CHR 0xB8, CHR 0xE0,
     CHR 0xA8, CHR 0x9F] @ '' '' @ [CHR 0xE0, CHR 0xA8, CHR 0x90, CHR 0xE0, CHR 0xA8, CHR 0xAE,
     CHR 0xE0, CHR 0xA8, CHR 0xB0, CHR 0xE0, CHR 0xA8, CHR 0x9C, CHR 0xE0, CHR 0xA9, CHR 0x88,
     CHR 0xE0, CHR 0xA8, CHR 0x82, CHR 0xE0, CHR 0xA8, CHR 0xB8, CHR 0xE0, CHR 0xA9, CHR 0x80]
     @ '' '' @ [CHR 0xE0, CHR 0xA8, CHR 0xB9, CHR 0xE0, CHR 0xA9, CHR 0x88]"

definition PHRASE_bn :: string where
  "PHRASE_bn =
     [CHR 0xE0, CHR 0xA6, CHR 0x8F, CHR 0xE0, CHR 0xA6, CHR 0x9F, CHR 0xE0, CHR 0xA6, CHR 0xBF]
     @ '' '' @ [CHR 0xE0, CHR 0xA6, CHR 0x8F, CHR 0xE0, CHR 0xA6, CHR 0x95, CHR 0xE0, CHR 0xA6,
     CHR 0x9F, CHR 0xE0, CHR 0xA6, CHR 0xBF] @ '' '' @ [CHR 0xE0, CHR 0xA6, CHR 0xAA, CHR 0xE0,
     CHR 0xA6, CHR 0xB0, CHR 0xE0, CHR 0xA7, CHR 0x80, CHR 0xE0, CHR 0xA6, CHR 0x95, CHR 0xE0,
     CHR 0xA7, CHR 0x8D, CHR 0xE0, CHR 0xA6, CHR 0xB7, CHR 0xE0, CHR 0xA6, CHR 0xBE, CHR 0xE0,
     CHR 0xA6, CHR 0xAE, CHR 0xE0, CHR 0xA7, CHR 0x82, CHR 0xE0, CHR 0xA6, CHR 0xB2, CHR 0xE0,
     CHR 0xA6, CHR 0x95] @ '' '' @ [CHR 0xE0, CHR 0xA6, CHR 0x9C, CHR 0xE0, CHR 0xA6, CHR 0xB0,
     CHR 0xE0, CHR 0xA7, CHR 0x81, CHR 0xE0, CHR 0xA6, CHR 0xB0, CHR 0xE0, CHR 0xA6, CHR 0xBF]
     @ '' '' @ [CHR 0xE0, CHR 0xA6, CHR 0x85, CHR 0xE0, CHR 0xA6, CHR 0xAC, CHR 0xE0, CHR 0xA6,
     CHR 0xB8, CHR 0xE0, CHR 0xA7, CHR 0x8D, CHR 0xE0, CHR 0xA6, CHR 0xA5, CHR 0xE0, CHR 0xA6,
     CHR 0xBE]"

definition PHRASE_ta :: string where
  "PHRASE_ta =
     [CHR 0xE0, CHR 0xAE, CHR 0x87, CHR 0xE0, CHR 0xAE, CHR 0xA4, CHR 0xE0, CHR 0xAF, CHR 0x81]
     @ '' '' @ [CHR 0xE0, CHR 0xAE, CHR 0x92, CHR 0xE0, CHR 0xAE, CHR 0xB0, CHR 0xE0, CHR 0xAF,
     CHR 0x81] @ '' '' @ [CHR 0xE0, CHR 0xAE, CHR 0x9A, CHR 0xE0, CHR 0xAF, CHR 0x8B, CHR 0xE0,
     CHR 0xAE, CHR 0xA4, CHR 0xE0, CHR 0xAE, CHR 0xA9, CHR 0xE0, CHR 0xAF, CHR 0x88] @ '' ''
     @ [CHR 0xE0, CHR 0xAE, CHR 0x85, CHR 0xE0, CHR 0xAE, CHR 0xB5, CHR 0xE0, CHR 0xAE,
     CHR 0x9A, CHR 0xE0, CHR 0xAE, CHR 0xB0] @ '' '' @ [CHR 0xE0, CHR 0xAE, CHR 0xA8, CHR 0xE0,
     CHR 0xAE, CHR 0xBF, CHR 0xE0, CHR 0xAE, CHR 0xB2, CHR 0xE0, CHR 0xAF, CHR 0x88]"

definition PHRASE_te :: string where
  "PHRASE_te =
     [CHR 0xE0, CHR 0xB0, CHR 0x87, CHR 0xE0, CHR 0xB0, CHR 0xA6, CHR 0xE0, CHR 0xB0, CHR 0xBF]
     @ '' '' @ [CHR 0xE0, CHR 0xB0, CHR 0x92, CHR 0xE0, CHR 0xB0, CHR 0x95] @ '' '' @ [CHR 0xE0,
     CHR 0xB0, CHR 0xAA, CHR 0xE0, CHR 0xB0, CHR 0xB0, CHR 0xE0, CHR 0xB1, CHR 0x80, CHR 0xE0,
     CHR 0xB0, CHR 0x95, CHR 0xE0, CHR 0xB1, CHR 0x8D, CHR 0xE0, CHR 0xB0, CHR 0xB7] @ '' ''
     @ [CHR 0xE0, CHR 0xB0, CHR 0x85, CHR 0xE0, CHR 0xB0, CHR 0xA4, CHR 0xE0, CHR 0xB1,
     CHR 0x8D, CHR 0xE0, CHR 0xB0, CHR 0xAF, CHR 0xE0, CHR 0xB0, CHR 0xB5, CHR 0xE0, CHR 0xB0,
     CHR 0xB8, CHR 0xE0, CHR 0xB0, CHR 0xB0] @ '' '' @ [CHR 0xE0, CHR 0xB0, CHR 0xAA, CHR 0xE0,
     CHR 0xB0, CHR 0xB0, CHR 0xE0, CHR 0xB0, CHR 0xBF, CHR 0xE0, CHR 0xB0, CHR 0xB8, CHR 0xE0,
     CHR 0xB1, CHR 0x8D, CHR 0xE0, CHR 0xB0, CHR 0xA5, CHR 0xE0, CHR 0xB0, CHR 0xBF, CHR 0xE0,
     CHR 0xB0, CHR 0xA4, CHR 0xE0, CHR 0xB0, CHR 0xBF]"

definition PHRASE_mr :: string where
  "PHRASE_mr =
     [CHR 0xE0, CHR 0xA4, CHR 0xB9, CHR 0xE0, CHR 0xA5, CHR 0x80] @ '' '' @ [CHR 0xE0, CHR 0xA4,
     CHR 0x8F, CHR 0xE0, CHR 0xA4, CHR 0x95] @ '' '' @ [CHR 0xE0, CHR 0xA4, CHR 0x9A, CHR 0xE0,
     CHR 0xA4, CHR 0xBE, CHR 0xE0, CHR 0xA4, CHR 0x9A, CHR 0xE0, CHR 0xA4, CHR 0xA3, CHR 0xE0,
     CHR 0xA5, CHR 0x80] @ '' '' @ [CHR 0xE0, CHR 0xA4, CHR 0x86, CHR 0xE0, CHR 0xA4, CHR 0xAA,
     CHR 0xE0, CHR 0xA4, CHR 0xA4, CHR 0xE0, CHR 0xA5, CHR 0x8D, CHR 0xE0, CHR 0xA4, CHR 0x95,
     CHR 0xE0, CHR 0xA4, CHR 0xBE, CHR 0xE0, CHR 0xA4, CHR 0xB2, CHR 0xE0, CHR 0xA5, CHR 0x80,
     CHR 0xE0, CHR 0xA4, CHR 0xA8] @ '' '' @ [CHR 0xE0, CHR 0xA4, CHR 0xB8, CHR 0xE0, CHR 0xA5,
     CHR 0x8D, CHR 0xE0, CHR 0xA4, CHR 0xA5, CHR 0xE0, CHR 0xA4, CHR 0xBF, CHR 0xE0, CHR 0xA4,
     CHR 0xA4, CHR 0xE0, CHR 0xA5, CHR 0x80] @ '' '' @ [CHR 0xE0, CHR 0xA4, CHR 0x86, CHR 0xE0,
     CHR 0xA4, CHR 0xB9, CHR 0xE0, CHR 0xA5, CHR 0x87]"

definition EMERGENCY_PHRASE :: "(string \<times> string) list" where
  "EMERGENCY_PHRASE =
    [(''en'', PHRASE_en),
     (''es'', PHRASE_es),
     (''zh'', PHRASE_zh),
     (''hi'', PHRASE_hi),
     (''ar'', PHRASE_ar),
     (''fr'', PHRASE_fr),
     (''vi'', PHRASE_vi),
     (''pt'', PHRASE_pt),
     (''ru'', PHRASE_ru),
     (''ja'', PHRASE_ja),
     (''ko'', PHRASE_ko),
     (''de'', PHRASE_de),
     (''tl'', PHRASE_tl),
     (''ur'', PHRASE_ur),
     (''fa'', PHRASE_fa),
     (''tr'', PHRASE_tr),
     (''it'', PHRASE_it),
     (''pl'', PHRASE_pl),
     (''nl'', PHRASE_nl),
     (''pa'', PHRASE_pa),
     (''bn'', PHRASE_bn),
     (''ta'', PHRASE_ta),
     (''te'', PHRASE_te),
     (''mr'', PHRASE_mr)]"

definition COUNTRY_LANGS :: "(string \<times> string list) list" where
  "COUNTRY_LANGS =
    [(''US'', [''en'', ''es'', ''zh'', ''vi'', ''ar'']),
     (''CA'', [''en'', ''fr'', ''zh'', ''pa'', ''es'']),
     (''MX'', [''es'', ''en'', ''zh'', ''fr'', ''de'']),
     (''BR'', [''pt'', ''en'', ''es'', ''fr'', ''de'']),
     (''GB'', [''en'', ''pl'', ''pa'', ''ur'', ''ar'']),
     (''AU'', [''en'', ''zh'', ''it'', ''vi'', ''el'']),
     (''IN'', [''hi'', ''en'', ''bn'', ''te'', ''ta'']),
     (''CN'', [''zh'', ''yue'', ''en'', ''ko'', ''ru'']),
     (''JP'', [''ja'', ''en'', ''zh'', ''ko'', ''pt'']),
     (''KR'', [''ko'', ''en'', ''zh'', ''ja'', ''vi'']),
     (''FR'', [''fr'', ''en'', ''es'', ''ar'', ''pt'']),
     (''DE'', [''de'', ''en'', ''tr'', ''ru'', ''pl'']),
     (''ES'', [''es'', ''en'', ''ca'', ''gl'', ''fr'']),
     (''IT'', [''it'', ''en'', ''fr'', ''es'', ''ro'']),
     (''PT'', [''pt'', ''en'', ''es'', ''fr'', ''uk'']),
     (''RU'', [''ru'', ''en'', ''uk'', ''tt'', ''az'']),
     (''VN'', [''vi'', ''en'', ''zh'', ''fr'', ''ko'']),
     (''PH'', [''tl'', ''en'', ''zh'', ''es'', ''ko'']),
     (''TR'', [''tr'', ''en'', ''ku'', ''ar'', ''fa'']),
     (''IR'', [''fa'', ''az'', ''ku'', ''ps'', ''en'']),
     (''PK'', [''ur'', ''pa'', ''sd'', ''ps'', ''en'']),
     (''SA'', [''ar'', ''en'', ''ur'', ''fa'', ''hi'']),
     (''NG'', [''en'', ''yo'', ''ig'', ''ha'', ''fr''])]"

text \<open>\<^verbatim>\<open>EMERGENCY_PHRASE[code] || EMERGENCY_PHRASE.en\<close>; an empty string is falsy.\<close>

definition phraseFor :: "string \<Rightarrow> string option" where
  "phraseFor code =
     (case map_of EMERGENCY_PHRASE code of
        Some p \<Rightarrow> if p \<noteq> [] then Some p else map_of EMERGENCY_PHRASE ''en''
      | None \<Rightarrow> map_of EMERGENCY_PHRASE ''en'')"

text \<open>\<^verbatim>\<open>COUNTRY_LANGS[cc] || ["en","es","fr","ar","zh"]\<close>; every array is truthy.\<close>

definition languagesFor :: "string \<Rightarrow> string list" where
  "languagesFor cc =
     (case map_of COUNTRY_LANGS cc of
        Some ls \<Rightarrow> ls
      | None \<Rightarrow> [''en'', ''es'', ''fr'', ''ar'', ''zh''])"

section \<open>Voice selection\<close>

text \<open>
  A \<^verbatim>\<open>SpeechSynthesisVoice\<close>: the code reads only its \<^verbatim>\<open>lang\<close>, and guards against a
  missing one (\<open>None\<close>).
\<close>

record voice =
  voiceURI :: string
  lang :: "string option"

text \<open>\<^verbatim>\<open>v.lang && v.lang.toLowerCase().startsWith(langCode.toLowerCase())\<close>\<close>

definition matchesLang :: "string \<Rightarrow> voice \<Rightarrow> bool" where
  "matchesLang langCode v =
     (case lang v of
        None \<Rightarrow> False
      | Some l \<Rightarrow> l \<noteq> [] \<and> startsWith (toLowerCase l) (toLowerCase langCode))"

text \<open>\<^verbatim>\<open>v.lang?.startsWith(p)\<close>\<close>

definition langStartsWith :: "string \<Rightarrow> voice \<Rightarrow> bool" where
  "langStartsWith p v = (case lang v of None \<Rightarrow> False | Some l \<Rightarrow> startsWith l p)"

text \<open>\<open>None\<close> is the \<^verbatim>\<open>null\<close> the function returns when \<^verbatim>\<open>find\<close> yields nothing.\<close>

definition pickVoiceFor :: "string \<Rightarrow> voice list \<Rightarrow> voice option" where
  "pickVoiceFor langCode voices =
     (case filter (matchesLang langCode) voices of
        c # cand \<Rightarrow> Some c
      | [] \<Rightarrow>
          if langCode = ''yue'' then find (langStartsWith ''zh'') voices
          else if langCode = ''tl'' then find (langStartsWith ''fil'') voices
          else find (langStartsWith ''en'') voices)"

section \<open>Reverse geocoding\<close>

text \<open>
  The parsed body of the geocoder's answer: \<^verbatim>\<open>data?.address?.country_code\<close> tolerates a
  \<^verbatim>\<open>null\<close> body, a missing \<^verbatim>\<open>address\<close> and a missing \<^verbatim>\<open>country_code\<close>, each \<open>None\<close>
  here; a present country code is a string, as the service documents it. A rejected
  \<^verbatim>\<open>fetch\<close> or \<^verbatim>\<open>res.json()\<close> is an error value.
\<close>

datatype js_error = FetchRejected | JsonRejected

record nominatim_address =
  country_code :: "string option"

record nominatim_data =
  address :: "nominatim_address option"

text \<open>
  An utterance as handed to \<^verbatim>\<open>synth.speak\<close>: \<open>u_voice = None\<close> is the \<^verbatim>\<open>null\<close> a new
  utterance starts with, for which the device uses its default voice.
\<close>

record utterance =
  u_text :: "string option"
  u_voice :: "voice option"
  u_rate :: rat
  u_pitch :: rat

text \<open>What the code does to the browser, in the order it does it.\<close>

datatype event =
    Alert string
  | GetVoices
  | SetTimeout nat
  | Fetch string
  | Speak utterance

definition reverseUrl :: "string \<Rightarrow> string \<Rightarrow> string" where
  "reverseUrl lat lon =
     ''https://nominatim.openstreetmap.org/reverse?lat='' @ lat @ ''&lon='' @ lon
       @ ''&format=json&zoom=3&addressdetails=1''"

text \<open>\<^verbatim>\<open>data?.address?.country_code\<close>\<close>

definition countryCodeField :: "nominatim_data option \<Rightarrow> string option" where
  "countryCodeField data = Option.bind (Option.bind data address) country_code"

text \<open>\<^verbatim>\<open>(data?.address?.country_code || "").toUpperCase()\<close>\<close>

definition countryCodeOf :: "nominatim_data option \<Rightarrow> string" where
  "countryCodeOf data =
     toUpperCase
       (case countryCodeField data of
          None \<Rightarrow> []
        | Some cc \<Rightarrow> if cc \<noteq> [] then cc else [])"

text \<open>
  The coordinates enter only through the URL template, so they are given as the text
  JavaScript interpolates; \<open>fetch\<close> stands for \<^verbatim>\<open>fetch\<close> followed by \<^verbatim>\<open>res.json()\<close>. The
  function returns the request it issued and its result.
\<close>

definition reverseCountryCode ::
  "(string \<Rightarrow> js_error + nominatim_data option) \<Rightarrow> string \<Rightarrow> string
     \<Rightarrow> event list \<times> (js_error + string)" where
  "reverseCountryCode fetch lat lon =
     ([Fetch (reverseUrl lat lon)],
      (case fetch (reverseUrl lat lon) of
         Inl e \<Rightarrow> Inl e
       | Inr data \<Rightarrow> Inr (countryCodeOf data)))"

section \<open>The announcement\<close>

text \<open>
  The device, when there is one, is given by what its \<open>k\<close>-th call of \<^verbatim>\<open>getVoices\<close>
  returns (\<open>k\<close> from 0): the list may fill in while the code waits.
\<close>

record env =
  speechSynthesis :: "(nat \<Rightarrow> voice list) option"
  fetchJson :: "string \<Rightarrow> js_error + nominatim_data option"

text \<open>
  \<^verbatim>\<open>waitVoices\<close>, with the closure's counter \<^verbatim>\<open>tries\<close> and the number \<open>k\<close> of calls of
  \<^verbatim>\<open>getVoices\<close> made before. In \<^verbatim>\<open>voices.length || tries++ > 10\<close> the comparison reads
  \<^verbatim>\<open>tries\<close> before the increment, and only when the list is empty.
\<close>

function waitVoices :: "(nat \<Rightarrow> voice list) \<Rightarrow> nat \<Rightarrow> nat \<Rightarrow> event list" where
  "waitVoices getVoices tries k =
     (if getVoices k \<noteq> [] then [GetVoices]
      else if tries > 10 then [GetVoices]
      else GetVoices # SetTimeout 200 # waitVoices getVoices (tries + 1) (k + 1))"
  by pat_completeness auto
termination
  by (relation "measure (\<lambda>(getVoices, tries, k). 11 - tries)") auto

declare waitVoices.simps [simp del]

definition getVoicesCalls :: "event list \<Rightarrow> nat" where
  "getVoicesCalls tr = length (filter (\<lambda>e. e = GetVoices) tr)"

fun delayOf :: "event \<Rightarrow> nat" where
  "delayOf (SetTimeout ms) = ms"
| "delayOf e = 0"

definition waitedMs :: "event list \<Rightarrow> nat" where
  "waitedMs tr = sum_list (map delayOf tr)"

text \<open>The body of the \<^verbatim>\<open>forEach\<close> callback, up to the call of \<^verbatim>\<open>synth.speak\<close>.\<close>

definition mkUtterance :: "voice list \<Rightarrow> string \<Rightarrow> utterance" where
  "mkUtterance voices code =
     \<lparr>u_text = phraseFor code,
      u_voice = pickVoiceFor code voices,
      u_rate = 0.95,
      u_pitch = 1.0\<rparr>"

definition speakTestEmergencyAt ::
  "env \<Rightarrow> string \<Rightarrow> string \<Rightarrow> event list \<times> (js_error + unit)" where
  "speakTestEmergencyAt w lat lon =
     (case speechSynthesis w of
        None \<Rightarrow> ([Alert ''Speech Synthesis not supported in this browser.''], Inr ())
      | Some getVoices \<Rightarrow>
          (let poll = waitVoices getVoices 0 0;
               voices = getVoices (getVoicesCalls poll);
               (req, res) = reverseCountryCode (fetchJson w) lat lon;
               tr = poll @ [GetVoices] @ req
           in case res of
                Inl e \<Rightarrow> (tr, Inl e)
              | Inr cc \<Rightarrow>
                  (let langs = take 5 (languagesFor cc)
                   in (tr @ map (\<lambda>code. Speak (mkUtterance voices code)) langs, Inr ()))))"

text \<open>The utterances a run enqueued, in order.\<close>

fun spoken :: "event list \<Rightarrow> utterance list" where
  "spoken [] = []"
| "spoken (Speak u # tr) = u # spoken tr"
| "spoken (e # tr) = spoken tr"

text \<open>
  The property names every object literal inherits from \<^verbatim>\<open>Object.prototype\<close>. A lookup
  \<^verbatim>\<open>T[k]\<close> with one of them as \<open>k\<close> would not be \<^verbatim>\<open>undefined\<close>; the lemmas
  \<open>toUpperCase_not_inherited\<close> and \<open>language_codes_not_inherited\<close> below show that no key
  the code looks up is among them, which is what lets \<open>map_of\<close> stand for the lookup.
\<close>

definition objectPrototypeKeys :: "string list" where
  "objectPrototypeKeys =
     [''constructor'', ''hasOwnProperty'', ''isPrototypeOf'', ''propertyIsEnumerable'',
      ''toLocaleString'', ''toString'', ''valueOf'', ''__proto__'', ''__defineGetter__'',
      ''__defineSetter__'', ''__lookupGetter__'', ''__lookupSetter__'']"

text \<open>
  Fixtures: a device whose voice list stays empty, and geocoders answering France and the
  United States with the lower-case codes the service sends.
\<close>

definition noVoices :: "nat \<Rightarrow> voice list" where
  "noVoices k = []"

definition answerFR :: "string \<Rightarrow> js_error + nominatim_data option" where
  "answerFR url = Inr (Some \<lparr>address = Some \<lparr>country_code = Some ''fr''\<rparr>\<rparr>)"

definition answerUS :: "string \<Rightarrow> js_error + nominatim_data option" where
  "answerUS url = Inr (Some \<lparr>address = Some \<lparr>country_code = Some ''us''\<rparr>\<rparr>)"

section \<open>Properties\<close>

subsection \<open>Case conversion and property lookup\<close>

lemma toUpperCaseChar_not_lower: "toUpperCaseChar c \<notin> set lowerLetters"
proof (cases "map_of (zip lowerLetters upperLetters) c")
  case None
  have "length lowerLetters = length upperLetters"
    by (simp add: lowerLetters_def upperLetters_def)
  from None map_of_zip_is_None [OF this] have "c \<notin> set lowerLetters"
    by blast
  with None show ?thesis by (simp add: toUpperCaseChar_def)
next
  case (Some u)
  then have "u \<in> set upperLetters"
    by (meson in_set_zipE map_of_SomeD)
  moreover have "set upperLetters \<inter> set lowerLetters = {}"
    by (simp add: lowerLetters_def upperLetters_def)
  ultimately show ?thesis using Some by (auto simp add: toUpperCaseChar_def)
qed

lemma toUpperCase_no_lower: "\<forall>c\<in>set (toUpperCase s). c \<notin> set lowerLetters"
  by (simp add: toUpperCase_def toUpperCaseChar_not_lower)

lemma inherited_has_lower: "\<forall>k\<in>set objectPrototypeKeys. \<exists>c\<in>set k. c \<in> set lowerLetters"
  by (simp add: objectPrototypeKeys_def lowerLetters_def)

lemma toUpperCase_not_inherited: "toUpperCase s \<notin> set objectPrototypeKeys"
  using inherited_has_lower toUpperCase_no_lower by blast

lemma inherited_long: "\<forall>k\<in>set objectPrototypeKeys. 3 < length k"
  by (simp add: objectPrototypeKeys_def)

lemma language_codes_short:
  "\<forall>ls\<in>insert [''en'', ''es'', ''fr'', ''ar'', ''zh''] (snd ` set COUNTRY_LANGS).
     \<forall>code\<in>set ls. length code \<le> 3"
  by (simp add: COUNTRY_LANGS_def)

lemma language_codes_not_inherited:
  assumes "ls \<in> insert [''en'', ''es'', ''fr'', ''ar'', ''zh''] (snd ` set COUNTRY_LANGS)"
    and "code \<in> set ls"
  shows "code \<notin> set objectPrototypeKeys"
proof
  assume "code \<in> set objectPrototypeKeys"
  with inherited_long have "3 < length code"
    by blast
  moreover from language_codes_short assms have "length code \<le> 3"
    by blast
  ultimately show False by simp
qed

lemma distinct_COUNTRY_LANGS: "distinct (map fst COUNTRY_LANGS)"
  by (simp add: COUNTRY_LANGS_def)

lemma distinct_EMERGENCY_PHRASE: "distinct (map fst EMERGENCY_PHRASE)"
  by (simp add: EMERGENCY_PHRASE_def)

lemma COUNTRY_LANGS_lengths: "\<forall>(cc, ls)\<in>set COUNTRY_LANGS. length ls = 5"
  by (simp add: COUNTRY_LANGS_def)

lemma COUNTRY_LANGS_five: "(cc, ls) \<in> set COUNTRY_LANGS \<Longrightarrow> length ls = 5"
  using COUNTRY_LANGS_lengths by blast

lemma COUNTRY_LANGS_keys:
  "\<forall>(cc, ls)\<in>set COUNTRY_LANGS. toLowerCase cc \<noteq> [] \<and> toUpperCase (toLowerCase cc) = cc"
  by (simp add: COUNTRY_LANGS_def toUpperCase_def toLowerCase_def toUpperCaseChar_def
      toLowerCaseChar_def upperLetters_def lowerLetters_def)

lemma COUNTRY_LANGS_keys_upper:
  "(cc, ls) \<in> set COUNTRY_LANGS \<Longrightarrow> toLowerCase cc \<noteq> [] \<and> toUpperCase (toLowerCase cc) = cc"
  using COUNTRY_LANGS_keys by blast

lemmas PHRASE_defs = PHRASE_en_def PHRASE_es_def PHRASE_zh_def PHRASE_hi_def PHRASE_ar_def
  PHRASE_fr_def PHRASE_vi_def PHRASE_pt_def PHRASE_ru_def PHRASE_ja_def PHRASE_ko_def
  PHRASE_de_def PHRASE_tl_def PHRASE_ur_def PHRASE_fa_def PHRASE_tr_def PHRASE_it_def
  PHRASE_pl_def PHRASE_nl_def PHRASE_pa_def PHRASE_bn_def PHRASE_ta_def PHRASE_te_def
  PHRASE_mr_def

lemma EMERGENCY_PHRASE_entries: "\<forall>(code, p)\<in>set EMERGENCY_PHRASE. p \<noteq> []"
  by (simp add: EMERGENCY_PHRASE_def PHRASE_defs)

lemma EMERGENCY_PHRASE_truthy: "(code, p) \<in> set EMERGENCY_PHRASE \<Longrightarrow> p \<noteq> []"
  using EMERGENCY_PHRASE_entries by blast

lemma EMERGENCY_PHRASE_en: "map_of EMERGENCY_PHRASE ''en'' = Some PHRASE_en"
  by (simp add: EMERGENCY_PHRASE_def)

lemma phraseFor_table:
  "map_of EMERGENCY_PHRASE code = Some p \<Longrightarrow> phraseFor code = map_of EMERGENCY_PHRASE code"
  using EMERGENCY_PHRASE_truthy [OF map_of_SomeD] by (simp add: phraseFor_def)

lemma languagesFor_US: "languagesFor ''US'' = [''en'', ''es'', ''zh'', ''vi'', ''ar'']"
  by (simp add: languagesFor_def COUNTRY_LANGS_def)

lemma languagesFor_FR: "languagesFor ''FR'' = [''fr'', ''en'', ''es'', ''ar'', ''pt'']"
  by (simp add: languagesFor_def COUNTRY_LANGS_def)

lemma countryCodeOf_us:
  "countryCodeOf (Some \<lparr>address = Some \<lparr>country_code = Some ''us''\<rparr>\<rparr>) = ''US''"
  by (simp add: countryCodeOf_def countryCodeField_def toUpperCase_def toUpperCaseChar_def
      upperLetters_def lowerLetters_def)

lemma countryCodeOf_fr:
  "countryCodeOf (Some \<lparr>address = Some \<lparr>country_code = Some ''fr''\<rparr>\<rparr>) = ''FR''"
  by (simp add: countryCodeOf_def countryCodeField_def toUpperCase_def toUpperCaseChar_def
      upperLetters_def lowerLetters_def)

subsection \<open>Language catalog\<close>

text \<open>
  C2. For a country code that is not a key of \<^verbatim>\<open>COUNTRY_LANGS\<close>, and for the empty string,
  the language list is the default \<^verbatim>\<open>["en","es","fr","ar","zh"]\<close>; for a key of the table it
  is the list the table gives, which the truncation to five entries leaves whole.
\<close>

theorem languagesFor_lookup:
  "(cc \<notin> fst ` set COUNTRY_LANGS \<longrightarrow> languagesFor cc = [''en'', ''es'', ''fr'', ''ar'', ''zh''])
   \<and> languagesFor [] = [''en'', ''es'', ''fr'', ''ar'', ''zh'']
   \<and> ((cc, ls) \<in> set COUNTRY_LANGS \<longrightarrow> languagesFor cc = ls \<and> take 5 (languagesFor cc) = ls)"
proof (intro conjI impI)
  assume "cc \<notin> fst ` set COUNTRY_LANGS"
  then have "map_of COUNTRY_LANGS cc = None"
    by (simp add: map_of_eq_None_iff)
  then show "languagesFor cc = [''en'', ''es'', ''fr'', ''ar'', ''zh'']"
    by (simp add: languagesFor_def)
next
  show "languagesFor [] = [''en'', ''es'', ''fr'', ''ar'', ''zh'']"
    by (simp add: languagesFor_def COUNTRY_LANGS_def)
next
  assume in_table: "(cc, ls) \<in> set COUNTRY_LANGS"
  then have "map_of COUNTRY_LANGS cc = Some ls"
    using distinct_COUNTRY_LANGS by simp
  then show "languagesFor cc = ls"
    by (simp add: languagesFor_def)
  with COUNTRY_LANGS_five [OF in_table] show "take 5 (languagesFor cc) = ls"
    by simp
qed

theorem languagesFor_lookup_witness:
  "''ZZ'' \<notin> fst ` set COUNTRY_LANGS
   \<and> languagesFor ''ZZ'' = [''en'', ''es'', ''fr'', ''ar'', ''zh'']
   \<and> (''IN'', [''hi'', ''en'', ''bn'', ''te'', ''ta'']) \<in> set COUNTRY_LANGS
   \<and> languagesFor ''IN'' = [''hi'', ''en'', ''bn'', ''te'', ''ta'']"
proof -
  have absent: "''ZZ'' \<notin> fst ` set COUNTRY_LANGS"
    by (simp add: COUNTRY_LANGS_def)
  have present: "(''IN'', [''hi'', ''en'', ''bn'', ''te'', ''ta'']) \<in> set COUNTRY_LANGS"
    by (simp add: COUNTRY_LANGS_def)
  from absent present
    languagesFor_lookup [of "''ZZ''" "[]"]
    languagesFor_lookup [of "''IN''" "[''hi'', ''en'', ''bn'', ''te'', ''ta'']"]
  show ?thesis by blast
qed

text \<open>
  C5. For a language code with an entry in \<^verbatim>\<open>EMERGENCY_PHRASE\<close> the phrase is that entry; for
  any other code it is the phrase of \<^verbatim>\<open>"en"\<close>; in both cases there is a phrase
  (never \<^verbatim>\<open>undefined\<close>).
\<close>

theorem phraseFor_fallback:
  "((code, p) \<in> set EMERGENCY_PHRASE \<longrightarrow> phraseFor code = Some p)
   \<and> (code \<notin> fst ` set EMERGENCY_PHRASE \<longrightarrow> phraseFor code = phraseFor ''en'')
   \<and> phraseFor ''en'' = Some PHRASE_en
   \<and> (\<exists>text. phraseFor code = Some text)"
proof -
  have present: "phraseFor c = Some q" if "(c, q) \<in> set EMERGENCY_PHRASE" for c q
  proof -
    from that have "map_of EMERGENCY_PHRASE c = Some q"
      using distinct_EMERGENCY_PHRASE by simp
    with EMERGENCY_PHRASE_truthy [OF that] show ?thesis
      by (simp add: phraseFor_def)
  qed
  have en: "phraseFor ''en'' = Some PHRASE_en"
    by (rule present) (simp add: EMERGENCY_PHRASE_def)
  have absent: "phraseFor c = phraseFor ''en''" if "c \<notin> fst ` set EMERGENCY_PHRASE" for c
  proof -
    from that have "map_of EMERGENCY_PHRASE c = None"
      by (simp add: map_of_eq_None_iff)
    then show ?thesis
      by (simp add: phraseFor_def EMERGENCY_PHRASE_en en)
  qed
  have "\<exists>text. phraseFor code = Some text"
  proof (cases "map_of EMERGENCY_PHRASE code")
    case None
    then have "code \<notin> fst ` set EMERGENCY_PHRASE"
      by (simp add: map_of_eq_None_iff)
    with absent en show ?thesis by simp
  next
    case (Some q)
    then have "(code, q) \<in> set EMERGENCY_PHRASE"
      by (rule map_of_SomeD)
    with present show ?thesis by blast
  qed
  with present absent en show ?thesis by blast
qed

theorem phraseFor_fallback_witness:
  "(''de'', PHRASE_de) \<in> set EMERGENCY_PHRASE
   \<and> phraseFor ''de'' = Some ''DIES IST EINE TEST-NOTFALLMELDUNG''
   \<and> ''xx'' \<notin> fst ` set EMERGENCY_PHRASE
   \<and> phraseFor ''xx'' = Some ''THIS IS A TEST EMERGENCY''"
proof -
  have present: "(''de'', PHRASE_de) \<in> set EMERGENCY_PHRASE"
    by (simp add: EMERGENCY_PHRASE_def)
  have absent: "''xx'' \<notin> fst ` set EMERGENCY_PHRASE"
    by (simp add: EMERGENCY_PHRASE_def)
  from present absent
    phraseFor_fallback [of "''de''" PHRASE_de]
    phraseFor_fallback [of "''xx''" "[]"]
  show ?thesis by (simp add: PHRASE_de_def PHRASE_en_def)
qed

subsection \<open>Voice selection\<close>

lemma filter_matchesLang_empty:
  "(\<forall>u\<in>set voices. \<not> matchesLang langCode u) \<Longrightarrow> filter (matchesLang langCode) voices = []"
  by (simp add: filter_empty_conv)

lemma find_first:
  "P v \<Longrightarrow> (\<forall>u\<in>set pre. \<not> P u) \<Longrightarrow> find P (pre @ v # post) = Some v"
  by (induction pre) simp_all

text \<open>
  C1, as the code has it. When no voice has a non-empty tag that starts with the language
  code, compared case-insensitively, the fallback depends on the code: for \<^verbatim>\<open>"yue"\<close> the
  result is the first voice whose tag starts with \<^verbatim>\<open>"zh"\<close>, for \<^verbatim>\<open>"tl"\<close> the first whose tag
  starts with \<^verbatim>\<open>"fil"\<close>, and neither of the two goes on to English; for every other code it
  is the first voice whose tag starts with \<^verbatim>\<open>"en"\<close>, and then the result is absent exactly
  when no tag starts with \<^verbatim>\<open>"en"\<close>.
\<close>

theorem pickVoiceFor_fallback:
  assumes "\<forall>u\<in>set voices. \<not> matchesLang langCode u"
  shows "(langCode = ''yue'' \<longrightarrow> pickVoiceFor langCode voices = find (langStartsWith ''zh'') voices)
       \<and> (langCode = ''tl'' \<longrightarrow> pickVoiceFor langCode voices = find (langStartsWith ''fil'') voices)
       \<and> (langCode \<noteq> ''yue'' \<and> langCode \<noteq> ''tl'' \<longrightarrow>
            pickVoiceFor langCode voices = find (langStartsWith ''en'') voices
            \<and> (pickVoiceFor langCode voices = None
                 \<longleftrightarrow> (\<forall>u\<in>set voices. \<not> langStartsWith ''en'' u)))"
proof -
  from assms have "filter (matchesLang langCode) voices = []"
    by (rule filter_matchesLang_empty)
  then show ?thesis
    by (auto simp add: pickVoiceFor_def find_None_iff)
qed

theorem pickVoiceFor_fallback_witness:
  "filter (matchesLang ''yue'') [\<lparr>voiceURI = ''Samantha'', lang = Some ''en-US''\<rparr>,
               \<lparr>voiceURI = ''Tingting'', lang = Some ''zh-CN''\<rparr>,
               \<lparr>voiceURI = ''Filipino'', lang = Some ''fil-PH''\<rparr>] = []
   \<and> filter (matchesLang ''tl'') [\<lparr>voiceURI = ''Samantha'', lang = Some ''en-US''\<rparr>,
               \<lparr>voiceURI = ''Tingting'', lang = Some ''zh-CN''\<rparr>,
               \<lparr>voiceURI = ''Filipino'', lang = Some ''fil-PH''\<rparr>] = []
   \<and> filter (matchesLang ''vi'') [\<lparr>voiceURI = ''Samantha'', lang = Some ''en-US''\<rparr>,
               \<lparr>voiceURI = ''Tingting'', lang = Some ''zh-CN''\<rparr>,
               \<lparr>voiceURI = ''Filipino'', lang = Some ''fil-PH''\<rparr>] = []
   \<and> pickVoiceFor ''yue'' [\<lparr>voiceURI = ''Samantha'', lang = Some ''en-US''\<rparr>,
               \<lparr>voiceURI = ''Tingting'', lang = Some ''zh-CN''\<rparr>,
               \<lparr>voiceURI = ''Filipino'', lang = Some ''fil-PH''\<rparr>]
       = Some \<lparr>voiceURI = ''Tingting'', lang = Some ''zh-CN''\<rparr>
   \<and> pickVoiceFor ''tl'' [\<lparr>voiceURI = ''Samantha'', lang = Some ''en-US''\<rparr>,
               \<lparr>voiceURI = ''Tingting'', lang = Some ''zh-CN''\<rparr>,
               \<lparr>voiceURI = ''Filipino'', lang = Some ''fil-PH''\<rparr>]
       = Some \<lparr>voiceURI = ''Filipino'', lang = Some ''fil-PH''\<rparr>
   \<and> pickVoiceFor ''vi'' [\<lparr>voiceURI = ''Samantha'', lang = Some ''en-US''\<rparr>,
               \<lparr>voiceURI = ''Tingting'', lang = Some ''zh-CN''\<rparr>,
               \<lparr>voiceURI = ''Filipino'', lang = Some ''fil-PH''\<rparr>]
       = Some \<lparr>voiceURI = ''Samantha'', lang = Some ''en-US''\<rparr>"
proof -
  let ?vs = "[\<lparr>voiceURI = ''Samantha'', lang = Some ''en-US''\<rparr>,
               \<lparr>voiceURI = ''Tingting'', lang = Some ''zh-CN''\<rparr>,
               \<lparr>voiceURI = ''Filipino'', lang = Some ''fil-PH''\<rparr>]"
  have no_match:
    "\<forall>u\<in>set ?vs. \<not> matchesLang ''yue'' u \<and> \<not> matchesLang ''tl'' u \<and> \<not> matchesLang ''vi'' u"
    by (simp add: matchesLang_def toLowerCase_def toLowerCaseChar_def upperLetters_def
        lowerLetters_def)
  then have yue: "\<forall>u\<in>set ?vs. \<not> matchesLang ''yue'' u"
    and tl: "\<forall>u\<in>set ?vs. \<not> matchesLang ''tl'' u"
    and vi: "\<forall>u\<in>set ?vs. \<not> matchesLang ''vi'' u"
    by blast+
  from pickVoiceFor_fallback [OF yue] pickVoiceFor_fallback [OF tl] pickVoiceFor_fallback [OF vi]
  have "pickVoiceFor ''yue'' ?vs = find (langStartsWith ''zh'') ?vs"
    and "pickVoiceFor ''tl'' ?vs = find (langStartsWith ''fil'') ?vs"
    and "pickVoiceFor ''vi'' ?vs = find (langStartsWith ''en'') ?vs"
    by simp_all
  with no_match show ?thesis
    by (simp add: langStartsWith_def)
qed

text \<open>
  C1 as stated fails for \<^verbatim>\<open>"yue"\<close>: with a single voice tagged \<^verbatim>\<open>"en-US"\<close>, no tag starts with
  \<^verbatim>\<open>"yue"\<close>, none with \<^verbatim>\<open>"zh"\<close> and none with \<^verbatim>\<open>"fil"\<close>, a voice whose tag starts with
  \<^verbatim>\<open>"en"\<close> is there, and the result is \<^verbatim>\<open>null\<close>.
\<close>

theorem pickVoiceFor_yue_counterexample:
  "filter (matchesLang ''yue'') [\<lparr>voiceURI = ''Samantha'', lang = Some ''en-US''\<rparr>] = []
   \<and> find (langStartsWith ''zh'') [\<lparr>voiceURI = ''Samantha'', lang = Some ''en-US''\<rparr>] = None
   \<and> find (langStartsWith ''fil'') [\<lparr>voiceURI = ''Samantha'', lang = Some ''en-US''\<rparr>] = None
   \<and> find (langStartsWith ''en'') [\<lparr>voiceURI = ''Samantha'', lang = Some ''en-US''\<rparr>]
       = Some \<lparr>voiceURI = ''Samantha'', lang = Some ''en-US''\<rparr>
   \<and> pickVoiceFor ''yue'' [\<lparr>voiceURI = ''Samantha'', lang = Some ''en-US''\<rparr>] = None"
  by (simp add: pickVoiceFor_def matchesLang_def langStartsWith_def toLowerCase_def
      toLowerCaseChar_def upperLetters_def lowerLetters_def)

text \<open>
  C6, as the code has it. In a voice list where no tag starts with \<^verbatim>\<open>"yue"\<close>
  (case-insensitively), a voice tagged \<^verbatim>\<open>"zh-CN"\<close> is the result for \<^verbatim>\<open>"yue"\<close> when no voice
  before it has a tag starting with \<^verbatim>\<open>"zh"\<close>; in a voice list where no tag starts with
  \<^verbatim>\<open>"tl"\<close> (case-insensitively), a voice tagged \<^verbatim>\<open>"fil-PH"\<close> is the result for \<^verbatim>\<open>"tl"\<close> when
  no voice before it has a tag starting with \<^verbatim>\<open>"fil"\<close>.
\<close>

theorem pickVoiceFor_special_cases:
  assumes "voices = pre @ v # post"
  shows "(lang v = Some ''zh-CN'' \<and> (\<forall>u\<in>set voices. \<not> matchesLang ''yue'' u)
            \<and> (\<forall>u\<in>set pre. \<not> langStartsWith ''zh'' u)
          \<longrightarrow> pickVoiceFor ''yue'' voices = Some v)
       \<and> (lang v = Some ''fil-PH'' \<and> (\<forall>u\<in>set voices. \<not> matchesLang ''tl'' u)
            \<and> (\<forall>u\<in>set pre. \<not> langStartsWith ''fil'' u)
          \<longrightarrow> pickVoiceFor ''tl'' voices = Some v)"
proof (intro conjI impI)
  assume h: "lang v = Some ''zh-CN'' \<and> (\<forall>u\<in>set voices. \<not> matchesLang ''yue'' u)
            \<and> (\<forall>u\<in>set pre. \<not> langStartsWith ''zh'' u)"
  then have "filter (matchesLang ''yue'') voices = []"
    by (simp add: filter_matchesLang_empty)
  moreover from h have "langStartsWith ''zh'' v"
    by (simp add: langStartsWith_def)
  with h have "find (langStartsWith ''zh'') (pre @ v # post) = Some v"
    by (simp add: find_first)
  ultimately show "pickVoiceFor ''yue'' voices = Some v"
    using assms by (simp add: pickVoiceFor_def)
next
  assume h: "lang v = Some ''fil-PH'' \<and> (\<forall>u\<in>set voices. \<not> matchesLang ''tl'' u)
            \<and> (\<forall>u\<in>set pre. \<not> langStartsWith ''fil'' u)"
  then have "filter (matchesLang ''tl'') voices = []"
    by (simp add: filter_matchesLang_empty)
  moreover from h have "langStartsWith ''fil'' v"
    by (simp add: langStartsWith_def)
  with h have "find (langStartsWith ''fil'') (pre @ v # post) = Some v"
    by (simp add: find_first)
  ultimately show "pickVoiceFor ''tl'' voices = Some v"
    using assms by (simp add: pickVoiceFor_def)
qed

theorem pickVoiceFor_special_cases_witness:
  "pickVoiceFor ''yue'' ([\<lparr>voiceURI = ''Samantha'', lang = Some ''en-US''\<rparr>]
       @ \<lparr>voiceURI = ''Tingting'', lang = Some ''zh-CN''\<rparr>
       # [\<lparr>voiceURI = ''Sinji'', lang = Some ''zh-HK''\<rparr>])
     = Some \<lparr>voiceURI = ''Tingting'', lang = Some ''zh-CN''\<rparr>
   \<and> pickVoiceFor ''tl'' ([\<lparr>voiceURI = ''Samantha'', lang = Some ''en-US''\<rparr>]
       @ \<lparr>voiceURI = ''Filipino'', lang = Some ''fil-PH''\<rparr> # [])
     = Some \<lparr>voiceURI = ''Filipino'', lang = Some ''fil-PH''\<rparr>"
proof -
  let ?en = "\<lparr>voiceURI = ''Samantha'', lang = Some ''en-US''\<rparr>"
  let ?cn = "\<lparr>voiceURI = ''Tingting'', lang = Some ''zh-CN''\<rparr>"
  let ?hk = "\<lparr>voiceURI = ''Sinji'', lang = Some ''zh-HK''\<rparr>"
  let ?ph = "\<lparr>voiceURI = ''Filipino'', lang = Some ''fil-PH''\<rparr>"
  have yue: "lang ?cn = Some ''zh-CN'' \<and> (\<forall>u\<in>set ([?en] @ ?cn # [?hk]). \<not> matchesLang ''yue'' u)
      \<and> (\<forall>u\<in>set [?en]. \<not> langStartsWith ''zh'' u)"
    by (simp add: matchesLang_def langStartsWith_def toLowerCase_def toLowerCaseChar_def
        upperLetters_def lowerLetters_def)
  have tl: "lang ?ph = Some ''fil-PH'' \<and> (\<forall>u\<in>set ([?en] @ ?ph # []). \<not> matchesLang ''tl'' u)
      \<and> (\<forall>u\<in>set [?en]. \<not> langStartsWith ''fil'' u)"
    by (simp add: matchesLang_def langStartsWith_def toLowerCase_def toLowerCaseChar_def
        upperLetters_def lowerLetters_def)
  from yue tl
    pickVoiceFor_special_cases [of "[?en] @ ?cn # [?hk]" "[?en]" ?cn "[?hk]"]
    pickVoiceFor_special_cases [of "[?en] @ ?ph # []" "[?en]" ?ph "[]"]
  show ?thesis by blast
qed

text \<open>
  C6 as stated fails when the voice tagged \<^verbatim>\<open>"zh-CN"\<close> is not the first with a tag starting
  with \<^verbatim>\<open>"zh"\<close>: the list holds such a voice, and the result for \<^verbatim>\<open>"yue"\<close> is the voice tagged
  \<^verbatim>\<open>"zh-HK"\<close> before it.
\<close>

theorem pickVoiceFor_special_cases_counterexample:
  "lang \<lparr>voiceURI = ''Tingting'', lang = Some ''zh-CN''\<rparr> = Some ''zh-CN''
   \<and> \<lparr>voiceURI = ''Tingting'', lang = Some ''zh-CN''\<rparr>
        \<in> set [\<lparr>voiceURI = ''Sinji'', lang = Some ''zh-HK''\<rparr>,
                \<lparr>voiceURI = ''Tingting'', lang = Some ''zh-CN''\<rparr>]
   \<and> pickVoiceFor ''yue'' [\<lparr>voiceURI = ''Sinji'', lang = Some ''zh-HK''\<rparr>,
                            \<lparr>voiceURI = ''Tingting'', lang = Some ''zh-CN''\<rparr>]
       = Some \<lparr>voiceURI = ''Sinji'', lang = Some ''zh-HK''\<rparr>
   \<and> pickVoiceFor ''yue'' [\<lparr>voiceURI = ''Sinji'', lang = Some ''zh-HK''\<rparr>,
                            \<lparr>voiceURI = ''Tingting'', lang = Some ''zh-CN''\<rparr>]
       \<noteq> Some \<lparr>voiceURI = ''Tingting'', lang = Some ''zh-CN''\<rparr>"
  by (simp add: pickVoiceFor_def matchesLang_def langStartsWith_def toLowerCase_def
      toLowerCaseChar_def upperLetters_def lowerLetters_def)

text \<open>
  C7. On the empty voice list \<^verbatim>\<open>pickVoiceFor\<close> returns \<^verbatim>\<open>null\<close> for every language code, and
  the utterance built from it keeps the device's default voice.
\<close>

theorem pickVoiceFor_no_voices:
  "pickVoiceFor langCode [] = None \<and> u_voice (mkUtterance [] langCode) = None"
  by (simp add: pickVoiceFor_def mkUtterance_def)

subsection \<open>Waiting for the voice list\<close>

lemma waitVoices_stops_when_filled:
  "getVoices k \<noteq> [] \<Longrightarrow> waitVoices getVoices tries k = [GetVoices]"
  by (subst waitVoices.simps) simp

lemma waitVoices_calls_bound: "getVoicesCalls (waitVoices getVoices tries k) \<le> Suc (11 - tries)"
proof (induction getVoices tries k rule: waitVoices.induct)
  case (1 getVoices tries k)
  show ?case
  proof (cases "getVoices k \<noteq> [] \<or> tries > 10")
    case True
    then show ?thesis
      by (subst waitVoices.simps) (auto simp add: getVoicesCalls_def)
  next
    case False
    with "1.IH"
    have "getVoicesCalls (waitVoices getVoices (tries + 1) (k + 1)) \<le> Suc (11 - (tries + 1))"
      by simp
    moreover from False have "getVoicesCalls (waitVoices getVoices tries k)
        = Suc (getVoicesCalls (waitVoices getVoices (tries + 1) (k + 1)))"
      by (subst waitVoices.simps) (simp add: getVoicesCalls_def)
    ultimately show ?thesis using False by arith
  qed
qed

lemma waitVoices_waited_bound: "waitedMs (waitVoices getVoices tries k) \<le> 200 * (11 - tries)"
proof (induction getVoices tries k rule: waitVoices.induct)
  case (1 getVoices tries k)
  show ?case
  proof (cases "getVoices k \<noteq> [] \<or> tries > 10")
    case True
    then show ?thesis
      by (subst waitVoices.simps) (auto simp add: waitedMs_def)
  next
    case False
    with "1.IH"
    have "waitedMs (waitVoices getVoices (tries + 1) (k + 1)) \<le> 200 * (11 - (tries + 1))"
      by simp
    moreover from False have "waitedMs (waitVoices getVoices tries k)
        = 200 + waitedMs (waitVoices getVoices (tries + 1) (k + 1))"
      by (subst waitVoices.simps) (simp add: waitedMs_def)
    ultimately show ?thesis using False by arith
  qed
qed

lemma spoken_waitVoices: "spoken (waitVoices getVoices tries k) = []"
proof (induction getVoices tries k rule: waitVoices.induct)
  case (1 getVoices tries k)
  show ?case
  proof (cases "getVoices k \<noteq> [] \<or> tries > 10")
    case True
    then show ?thesis
      by (subst waitVoices.simps) auto
  next
    case False
    with "1.IH" have "spoken (waitVoices getVoices (tries + 1) (k + 1)) = []"
      by simp
    with False show ?thesis
      by (subst waitVoices.simps) simp
  qed
qed

text \<open>
  C3. The wait always ends (\<open>waitVoices\<close> is a total function), it ends at the first
  non-empty list (\<open>waitVoices_stops_when_filled\<close>), and it makes at most 12 calls of
  \<^verbatim>\<open>getVoices\<close> and waits at most 2200 ms (\<open>waitVoices_calls_bound\<close>,
  \<open>waitVoices_waited_bound\<close>). On a device whose list stays empty it reaches both bounds:
  12 calls and 11 timeouts of 200 ms, not the 10 calls the guard \<^verbatim>\<open>tries++ > 10\<close> aims at.
\<close>

theorem waitVoices_empty_device:
  "getVoicesCalls (waitVoices noVoices 0 0) = 12 \<and> waitedMs (waitVoices noVoices 0 0) = 2200"
  by (simp add: waitVoices.simps noVoices_def getVoicesCalls_def waitedMs_def)

subsection \<open>Reverse geocoding\<close>

text \<open>
  C10. When the request is answered, \<^verbatim>\<open>reverseCountryCode\<close> returns a string, which is empty
  or the upper-cased \<^verbatim>\<open>country_code\<close> of the answer, and which holds no lower-case letter;
  the lower-case form of each key of \<^verbatim>\<open>COUNTRY_LANGS\<close> is thereby turned into that key, so
  the lookup finds the key's list.
\<close>

theorem reverseCountryCode_upper:
  assumes "fetch (reverseUrl lat lon) = Inr data"
  shows "\<exists>cc. snd (reverseCountryCode fetch lat lon) = Inr cc
           \<and> (cc = [] \<or> (\<exists>field. countryCodeField data = Some field \<and> cc = toUpperCase field))
           \<and> (\<forall>c\<in>set cc. c \<notin> set lowerLetters)
           \<and> (\<forall>key ls. (key, ls) \<in> set COUNTRY_LANGS
                  \<and> countryCodeField data = Some (toLowerCase key)
                \<longrightarrow> cc = key \<and> map_of COUNTRY_LANGS cc = Some ls)"
proof -
  have res: "snd (reverseCountryCode fetch lat lon) = Inr (countryCodeOf data)"
    using assms by (simp add: reverseCountryCode_def)
  have form: "countryCodeOf data = []
      \<or> (\<exists>field. countryCodeField data = Some field \<and> countryCodeOf data = toUpperCase field)"
    by (cases "countryCodeField data") (simp_all add: countryCodeOf_def toUpperCase_def)
  have upper: "\<forall>c\<in>set (countryCodeOf data). c \<notin> set lowerLetters"
    unfolding countryCodeOf_def by (rule toUpperCase_no_lower)
  have keys: "countryCodeOf data = key \<and> map_of COUNTRY_LANGS (countryCodeOf data) = Some ls"
    if "(key, ls) \<in> set COUNTRY_LANGS \<and> countryCodeField data = Some (toLowerCase key)"
    for key ls
  proof -
    from that COUNTRY_LANGS_keys_upper [of key ls] have "countryCodeOf data = key"
      by (simp add: countryCodeOf_def)
    moreover from that have "map_of COUNTRY_LANGS key = Some ls"
      using distinct_COUNTRY_LANGS by simp
    ultimately show ?thesis by simp
  qed
  from res form upper keys show ?thesis by blast
qed

theorem reverseCountryCode_upper_witness:
  "answerUS (reverseUrl ''30.27'' ''-97.74'')
       = Inr (Some \<lparr>address = Some \<lparr>country_code = Some ''us''\<rparr>\<rparr>)
   \<and> (''US'', [''en'', ''es'', ''zh'', ''vi'', ''ar'']) \<in> set COUNTRY_LANGS
   \<and> countryCodeField (Some \<lparr>address = Some \<lparr>country_code = Some ''us''\<rparr>\<rparr>)
       = Some (toLowerCase ''US'')
   \<and> snd (reverseCountryCode answerUS ''30.27'' ''-97.74'') = Inr ''US''
   \<and> set ''US'' \<inter> set lowerLetters = {}"
proof -
  let ?data = "Some \<lparr>address = Some \<lparr>country_code = Some ''us''\<rparr>\<rparr>"
  have ans: "answerUS (reverseUrl ''30.27'' ''-97.74'') = Inr ?data"
    by (simp add: answerUS_def)
  have key: "(''US'', [''en'', ''es'', ''zh'', ''vi'', ''ar'']) \<in> set COUNTRY_LANGS"
    by (simp add: COUNTRY_LANGS_def)
  have field: "countryCodeField ?data = Some (toLowerCase ''US'')"
    by (simp add: countryCodeField_def toLowerCase_def toLowerCaseChar_def upperLetters_def
        lowerLetters_def)
  from reverseCountryCode_upper [of answerUS "''30.27''" "''-97.74''" ?data, OF ans]
  obtain cc where res: "snd (reverseCountryCode answerUS ''30.27'' ''-97.74'') = Inr cc"
    and keys: "\<forall>key ls. (key, ls) \<in> set COUNTRY_LANGS
                  \<and> countryCodeField ?data = Some (toLowerCase key)
                \<longrightarrow> cc = key \<and> map_of COUNTRY_LANGS cc = Some ls"
    by (elim exE conjE)
  from keys [rule_format, OF conjI [OF key field]] have "cc = ''US''"
    by (rule conjunct1)
  with res have "snd (reverseCountryCode answerUS ''30.27'' ''-97.74'') = Inr ''US''"
    by simp
  moreover have "set ''US'' \<inter> set lowerLetters = {}"
    by (simp add: lowerLetters_def)
  ultimately show ?thesis using ans key field by simp
qed

subsection \<open>The announcement\<close>

lemma spoken_append: "spoken (tr @ tr') = spoken tr @ spoken tr'"
  by (induction tr rule: spoken.induct) simp_all

lemma spoken_map_Speak: "spoken (map (\<lambda>code. Speak (f code)) langs) = map f langs"
  by (induction langs) simp_all

lemma speakTestEmergencyAt_spoken:
  assumes "speechSynthesis w = Some getVoices"
    and "fetchJson w (reverseUrl lat lon) = Inr data"
  shows "spoken (fst (speakTestEmergencyAt w lat lon))
           = map (mkUtterance (getVoices (getVoicesCalls (waitVoices getVoices 0 0))))
               (take 5 (languagesFor (countryCodeOf data)))"
    and "snd (speakTestEmergencyAt w lat lon) = Inr ()"
  using assms
  by (simp_all add: speakTestEmergencyAt_def reverseCountryCode_def Let_def spoken_append
      spoken_waitVoices spoken_map_Speak)

text \<open>
  C8. Without a speech-synthesis device the run consists of the alert alone: the voice list
  is not queried, no request is issued, nothing is enqueued, and the function returns.
\<close>

theorem speakTestEmergencyAt_no_device:
  assumes "speechSynthesis w = None"
  shows "speakTestEmergencyAt w lat lon =
           ([Alert ''Speech Synthesis not supported in this browser.''], Inr ())
         \<and> GetVoices \<notin> set (fst (speakTestEmergencyAt w lat lon))
         \<and> (\<forall>url. Fetch url \<notin> set (fst (speakTestEmergencyAt w lat lon)))
         \<and> spoken (fst (speakTestEmergencyAt w lat lon)) = []"
  using assms by (simp add: speakTestEmergencyAt_def)

theorem speakTestEmergencyAt_no_device_witness:
  "speechSynthesis \<lparr>speechSynthesis = None, fetchJson = answerUS\<rparr> = None
   \<and> speakTestEmergencyAt \<lparr>speechSynthesis = None, fetchJson = answerUS\<rparr> ''30.27'' ''-97.74''
       = ([Alert ''Speech Synthesis not supported in this browser.''], Inr ())"
  using speakTestEmergencyAt_no_device
          [of "\<lparr>speechSynthesis = None, fetchJson = answerUS\<rparr>" "''30.27''" "''-97.74''"]
  by simp

text \<open>
  C4. With a device and an answered request, the utterances enqueued are, in the order of
  the language list cut to five entries, one per language: its text the phrase of the
  language, its voice the result of \<^verbatim>\<open>pickVoiceFor\<close> on the voice list read after the wait
  (the device default when that is \<^verbatim>\<open>null\<close>), rate 0.95 and pitch 1.0. For the country code
  \<^verbatim>\<open>"US"\<close> the languages are \<^verbatim>\<open>["en","es","zh","vi","ar"]\<close> and the five texts are their entries
  of \<^verbatim>\<open>EMERGENCY_PHRASE\<close>, in that order.
\<close>

theorem speakTestEmergencyAt_utterances:
  assumes "speechSynthesis w = Some getVoices"
    and "fetchJson w (reverseUrl lat lon) = Inr data"
    and "voices = getVoices (getVoicesCalls (waitVoices getVoices 0 0))"
    and "langs = take 5 (languagesFor (countryCodeOf data))"
  shows "spoken (fst (speakTestEmergencyAt w lat lon))
           = map (\<lambda>code. \<lparr>u_text = phraseFor code, u_voice = pickVoiceFor code voices,
                           u_rate = 0.95, u_pitch = 1.0\<rparr>) langs
         \<and> length langs \<le> 5
         \<and> snd (speakTestEmergencyAt w lat lon) = Inr ()
         \<and> (countryCodeOf data = ''US'' \<longrightarrow>
              langs = [''en'', ''es'', ''zh'', ''vi'', ''ar'']
              \<and> map u_text (spoken (fst (speakTestEmergencyAt w lat lon)))
                  = map (map_of EMERGENCY_PHRASE) langs
              \<and> map u_text (spoken (fst (speakTestEmergencyAt w lat lon)))
                  = [Some PHRASE_en, Some PHRASE_es, Some PHRASE_zh, Some PHRASE_vi,
                     Some PHRASE_ar])"
proof -
  have sp: "spoken (fst (speakTestEmergencyAt w lat lon)) = map (mkUtterance voices) langs"
    using speakTestEmergencyAt_spoken(1) [OF assms(1,2)] assms(3,4) by simp
  then have "spoken (fst (speakTestEmergencyAt w lat lon))
           = map (\<lambda>code. \<lparr>u_text = phraseFor code, u_voice = pickVoiceFor code voices,
                           u_rate = 0.95, u_pitch = 1.0\<rparr>) langs"
    by (simp add: mkUtterance_def)
  moreover have "length langs \<le> 5"
    using assms(4) by simp
  moreover have "snd (speakTestEmergencyAt w lat lon) = Inr ()"
    by (rule speakTestEmergencyAt_spoken(2) [OF assms(1,2)])
  moreover have "langs = [''en'', ''es'', ''zh'', ''vi'', ''ar'']
              \<and> map u_text (spoken (fst (speakTestEmergencyAt w lat lon)))
                  = map (map_of EMERGENCY_PHRASE) langs
              \<and> map u_text (spoken (fst (speakTestEmergencyAt w lat lon)))
                  = [Some PHRASE_en, Some PHRASE_es, Some PHRASE_zh, Some PHRASE_vi,
                     Some PHRASE_ar]" if "countryCodeOf data = ''US''"
  proof -
    from that assms(4) have l: "langs = [''en'', ''es'', ''zh'', ''vi'', ''ar'']"
      by (simp add: languagesFor_US)
    have t: "map (map_of EMERGENCY_PHRASE) [''en'', ''es'', ''zh'', ''vi'', ''ar'']
        = [Some PHRASE_en, Some PHRASE_es, Some PHRASE_zh, Some PHRASE_vi, Some PHRASE_ar]"
      by (simp add: EMERGENCY_PHRASE_def)
    then have "map phraseFor [''en'', ''es'', ''zh'', ''vi'', ''ar'']
        = [Some PHRASE_en, Some PHRASE_es, Some PHRASE_zh, Some PHRASE_vi, Some PHRASE_ar]"
      by (simp add: phraseFor_table)
    with sp l t show ?thesis
      by (simp add: mkUtterance_def)
  qed
  ultimately show ?thesis by blast
qed

theorem speakTestEmergencyAt_utterances_witness:
  "speechSynthesis \<lparr>speechSynthesis = Some noVoices, fetchJson = answerUS\<rparr> = Some noVoices
   \<and> fetchJson \<lparr>speechSynthesis = Some noVoices, fetchJson = answerUS\<rparr>
        (reverseUrl ''30.27'' ''-97.74'')
       = Inr (Some \<lparr>address = Some \<lparr>country_code = Some ''us''\<rparr>\<rparr>)
   \<and> countryCodeOf (Some \<lparr>address = Some \<lparr>country_code = Some ''us''\<rparr>\<rparr>) = ''US''
   \<and> map u_text (spoken (fst (speakTestEmergencyAt
          \<lparr>speechSynthesis = Some noVoices, fetchJson = answerUS\<rparr> ''30.27'' ''-97.74'')))
       = [Some PHRASE_en, Some PHRASE_es, Some PHRASE_zh, Some PHRASE_vi, Some PHRASE_ar]
   \<and> map u_voice (spoken (fst (speakTestEmergencyAt
          \<lparr>speechSynthesis = Some noVoices, fetchJson = answerUS\<rparr> ''30.27'' ''-97.74'')))
       = [None, None, None, None, None]"
proof -
  let ?w = "\<lparr>speechSynthesis = Some noVoices, fetchJson = answerUS\<rparr>"
  let ?data = "Some \<lparr>address = Some \<lparr>country_code = Some ''us''\<rparr>\<rparr>"
  have dev: "speechSynthesis ?w = Some noVoices"
    by simp
  have ans: "fetchJson ?w (reverseUrl ''30.27'' ''-97.74'') = Inr ?data"
    by (simp add: answerUS_def)
  note u = speakTestEmergencyAt_utterances [OF dev ans refl refl]
  from u countryCodeOf_us
  have "map u_text (spoken (fst (speakTestEmergencyAt ?w ''30.27'' ''-97.74'')))
       = [Some PHRASE_en, Some PHRASE_es, Some PHRASE_zh, Some PHRASE_vi, Some PHRASE_ar]"
    by blast
  moreover from u countryCodeOf_us
  have "map u_voice (spoken (fst (speakTestEmergencyAt ?w ''30.27'' ''-97.74'')))
       = [None, None, None, None, None]"
    by (simp add: languagesFor_US noVoices_def pickVoiceFor_def)
  ultimately show ?thesis
    using dev ans countryCodeOf_us by simp
qed

text \<open>
  C9, as the code has it. With a device and a request answered with a country code that
  resolves to \<^verbatim>\<open>"FR"\<close>, the first utterance enqueued carries the French entry of
  \<^verbatim>\<open>EMERGENCY_PHRASE\<close>, whose apostrophe is U+2019 (the bytes E2 80 99), not the ASCII one.
\<close>

theorem speakTestEmergencyAt_FR_first:
  assumes "speechSynthesis w = Some getVoices"
    and "fetchJson w (reverseUrl lat lon) = Inr data"
    and "countryCodeOf data = ''FR''"
  shows "\<exists>u us. spoken (fst (speakTestEmergencyAt w lat lon)) = u # us
           \<and> u_text u = map_of EMERGENCY_PHRASE ''fr''
           \<and> u_text u = Some (''Ceci est une alerte d'' @ [CHR 0xE2, CHR 0x80, CHR 0x99]
                               @ ''urgence de test'')"
proof -
  have "map_of EMERGENCY_PHRASE ''fr'' = Some PHRASE_fr"
    by (simp add: EMERGENCY_PHRASE_def)
  then have "phraseFor ''fr'' = map_of EMERGENCY_PHRASE ''fr''"
    and "phraseFor ''fr'' = Some (''Ceci est une alerte d'' @ [CHR 0xE2, CHR 0x80, CHR 0x99]
                               @ ''urgence de test'')"
    by (simp_all add: phraseFor_table PHRASE_fr_def)
  with speakTestEmergencyAt_spoken(1) [OF assms(1,2)] assms(3) show ?thesis
    by (simp add: languagesFor_FR mkUtterance_def)
qed

theorem speakTestEmergencyAt_FR_first_witness:
  "speechSynthesis \<lparr>speechSynthesis = Some noVoices, fetchJson = answerFR\<rparr> = Some noVoices
   \<and> fetchJson \<lparr>speechSynthesis = Some noVoices, fetchJson = answerFR\<rparr>
        (reverseUrl ''48.85'' ''2.35'')
       = Inr (Some \<lparr>address = Some \<lparr>country_code = Some ''fr''\<rparr>\<rparr>)
   \<and> countryCodeOf (Some \<lparr>address = Some \<lparr>country_code = Some ''fr''\<rparr>\<rparr>) = ''FR''
   \<and> map u_text (take 1 (spoken (fst (speakTestEmergencyAt
          \<lparr>speechSynthesis = Some noVoices, fetchJson = answerFR\<rparr> ''48.85'' ''2.35''))))
       = [Some (''Ceci est une alerte d'' @ [CHR 0xE2, CHR 0x80, CHR 0x99]
                @ ''urgence de test'')]"
proof -
  let ?w = "\<lparr>speechSynthesis = Some noVoices, fetchJson = answerFR\<rparr>"
  let ?data = "Some \<lparr>address = Some \<lparr>country_code = Some ''fr''\<rparr>\<rparr>"
  have dev: "speechSynthesis ?w = Some noVoices"
    by simp
  have ans: "fetchJson ?w (reverseUrl ''48.85'' ''2.35'') = Inr ?data"
    by (simp add: answerFR_def)
  from speakTestEmergencyAt_FR_first [OF dev ans countryCodeOf_fr]
  have "map u_text (take 1 (spoken (fst (speakTestEmergencyAt ?w ''48.85'' ''2.35''))))
       = [Some (''Ceci est une alerte d'' @ [CHR 0xE2, CHR 0x80, CHR 0x99]
                @ ''urgence de test'')]"
    by auto
  with dev ans countryCodeOf_fr show ?thesis by simp
qed

text \<open>
  C9 as stated fails on the apostrophe: for a click in France the text of the first
  utterance is the phrase with U+2019, which is not the string with the ASCII apostrophe
  (the byte 27).
\<close>

theorem speakTestEmergencyAt_FR_counterexample:
  "snd (reverseCountryCode answerFR ''48.85'' ''2.35'') = Inr ''FR''
   \<and> map u_text (take 1 (spoken (fst (speakTestEmergencyAt
          \<lparr>speechSynthesis = Some noVoices, fetchJson = answerFR\<rparr> ''48.85'' ''2.35''))))
       = [Some (''Ceci est une alerte d'' @ [CHR 0xE2, CHR 0x80, CHR 0x99]
                @ ''urgence de test'')]
   \<and> map u_text (take 1 (spoken (fst (speakTestEmergencyAt
          \<lparr>speechSynthesis = Some noVoices, fetchJson = answerFR\<rparr> ''48.85'' ''2.35''))))
       \<noteq> [Some (''Ceci est une alerte d'' @ [CHR 0x27] @ ''urgence de test'')]"
proof -
  let ?w = "\<lparr>speechSynthesis = Some noVoices, fetchJson = answerFR\<rparr>"
  let ?data = "Some \<lparr>address = Some \<lparr>country_code = Some ''fr''\<rparr>\<rparr>"
  have ans: "fetchJson ?w (reverseUrl ''48.85'' ''2.35'') = Inr ?data"
    by (simp add: answerFR_def)
  have "spoken (fst (speakTestEmergencyAt ?w ''48.85'' ''2.35''))
      = map (mkUtterance (noVoices (getVoicesCalls (waitVoices noVoices 0 0))))
               (take 5 (languagesFor ''FR''))"
    using speakTestEmergencyAt_spoken(1) [OF _ ans, of noVoices] countryCodeOf_fr by simp
  moreover have "phraseFor ''fr'' = Some PHRASE_fr"
    by (rule phraseFor_table [THEN trans]) (simp_all add: EMERGENCY_PHRASE_def)
  moreover have "snd (reverseCountryCode answerFR ''48.85'' ''2.35'') = Inr ''FR''"
    using countryCodeOf_fr by (simp add: reverseCountryCode_def answerFR_def)
  ultimately show ?thesis
    by (simp add: languagesFor_FR mkUtterance_def PHRASE_fr_def)
qed

end
